theory Spec2Isabelle
  imports Main "HOL-Library.AList"
begin

section \<open>JSON values and the JavaScript operators the store applies to them\<close>

text \<open>
  A document is what \<open>JSON.parse\<close> returns and what \<open>JSON.stringify\<close> accepts: a JSON
  value. Numbers are restricted to the integers (doubles with a fraction, infinities and
  the negative zero are not modelled). An object is the list of its own properties in
  insertion order. \<open>undefined\<close> is not a JSON value: a value that may be \<open>undefined\<close>
  (the result of a property read, of lodash's \<open>get\<close>) is a \<open>json option\<close>, with \<open>None\<close>
  for \<open>undefined\<close>.
\<close>

datatype json =
    JNull
  | JBool bool
  | JNum int
  | JStr string
  | JArr "json list"
  | JObj "(string \<times> json) list"

type_synonym jsval = "json option"

datatype number = NaN | Fin int

datatype error =
    TypeError
  | IOFailure string
  | SyntaxError string
  | Error string error
  | Policy string

subsection \<open>Number to string, string to number\<close>

fun digits :: "nat \<Rightarrow> string" where
  "digits n = (if n < 10 then [char_of (48 + n)] else digits (n div 10) @ [char_of (48 + n mod 10)])"

declare digits.simps [simp del]

definition show_int :: "int \<Rightarrow> string" where
  "show_int i = (if i < 0 then CHR ''-'' # digits (nat (- i)) else digits (nat i))"

definition is_digit :: "char \<Rightarrow> bool" where
  "is_digit c = (48 \<le> (of_char c :: nat) \<and> (of_char c :: nat) \<le> 57)"

definition is_space :: "char \<Rightarrow> bool" where
  "is_space c = (c = CHR '' '' \<or> c = CHR 0x09 \<or> c = CHR 0x0A \<or> c = CHR 0x0B \<or> c = CHR 0x0C \<or> c = CHR 0x0D)"

definition trim :: "string \<Rightarrow> string" where
  "trim s = rev (dropWhile is_space (rev (dropWhile is_space s)))"

definition digits_value :: "string \<Rightarrow> nat" where
  "digits_value s = foldl (\<lambda>a c. 10 * a + (of_char c - 48)) 0 s"

text \<open>
  \<open>Number(s)\<close> on a string, for the decimal integer literals: white space is trimmed, the
  empty string is 0, an optional sign is followed by digits. Every other string is read as
  \<open>NaN\<close> (literals with a fraction, an exponent or a radix prefix denote numbers outside
  the integers modelled here).
\<close>

definition string_to_number :: "string \<Rightarrow> number" where
  "string_to_number s =
     (case trim s of
        [] \<Rightarrow> Fin 0
      | c # r \<Rightarrow>
          if c = CHR ''-'' \<and> r \<noteq> [] \<and> list_all is_digit r then Fin (- int (digits_value r))
          else if c = CHR ''+'' \<and> r \<noteq> [] \<and> list_all is_digit r then Fin (int (digits_value r))
          else if list_all is_digit (c # r) then Fin (int (digits_value (c # r)))
          else NaN)"

fun join_comma :: "string list \<Rightarrow> string" where
  "join_comma [] = []"
| "join_comma [s] = s"
| "join_comma (s # t # ss) = s @ '','' @ join_comma (t # ss)"

text \<open>\<open>String(v)\<close>: an array joins its elements with commas, \<open>null\<close> elements as the
  empty string; an object prints as \<open>[object Object]\<close>.\<close>

fun to_string :: "json \<Rightarrow> string" where
  "to_string JNull = ''null''"
| "to_string (JBool b) = (if b then ''true'' else ''false'')"
| "to_string (JNum n) = show_int n"
| "to_string (JStr s) = s"
| "to_string (JArr xs) = join_comma (map (\<lambda>x. if x = JNull then [] else to_string x) xs)"
| "to_string (JObj kvs) = ''[object Object]''"

definition js_string :: "jsval \<Rightarrow> string" where
  "js_string v = (case v of None \<Rightarrow> ''undefined'' | Some x \<Rightarrow> to_string x)"

definition to_number :: "jsval \<Rightarrow> number" where
  "to_number v =
     (case v of
        None \<Rightarrow> NaN
      | Some JNull \<Rightarrow> Fin 0
      | Some (JBool b) \<Rightarrow> Fin (if b then 1 else 0)
      | Some (JNum n) \<Rightarrow> Fin n
      | Some x \<Rightarrow> string_to_number (to_string x))"

subsection \<open>Comparison and equality\<close>

fun str_less :: "string \<Rightarrow> string \<Rightarrow> bool" where
  "str_less [] [] = False"
| "str_less [] (y # ys) = True"
| "str_less (x # xs) [] = False"
| "str_less (x # xs) (y # ys) =
     (if x = y then str_less xs ys else (of_char x :: nat) < of_char y)"

definition string_primitive :: "jsval \<Rightarrow> bool" where
  "string_primitive v =
     (case v of Some (JStr s) \<Rightarrow> True | Some (JArr xs) \<Rightarrow> True | Some (JObj kvs) \<Rightarrow> True
              | _ \<Rightarrow> False)"

text \<open>
  The relational comparison \<open>x < y\<close> of the language: both operands are made primitive
  (arrays and objects become strings); two strings compare by code units, anything else
  as numbers, and the result is undefined (\<open>None\<close>) when either number is \<open>NaN\<close>.
  The four operators read that result: an undefined comparison is \<open>false\<close> for each.
\<close>

definition js_less :: "jsval \<Rightarrow> jsval \<Rightarrow> bool option" where
  "js_less x y =
     (if string_primitive x \<and> string_primitive y then Some (str_less (js_string x) (js_string y))
      else (case (to_number x, to_number y) of
              (Fin a, Fin b) \<Rightarrow> Some (a < b)
            | _ \<Rightarrow> None))"

definition js_lt :: "jsval \<Rightarrow> jsval \<Rightarrow> bool" where
  "js_lt x y = (js_less x y = Some True)"

definition js_gt :: "jsval \<Rightarrow> jsval \<Rightarrow> bool" where
  "js_gt x y = (js_less y x = Some True)"

definition js_le :: "jsval \<Rightarrow> jsval \<Rightarrow> bool" where
  "js_le x y = (js_less y x = Some False)"

definition js_ge :: "jsval \<Rightarrow> jsval \<Rightarrow> bool" where
  "js_ge x y = (js_less x y = Some False)"

definition primitive :: "json \<Rightarrow> bool" where
  "primitive v = (case v of JArr xs \<Rightarrow> False | JObj kvs \<Rightarrow> False | _ \<Rightarrow> True)"

text \<open>
  \<open>x === y\<close> between a value read from a parsed document and a value of the caller's
  filter: primitives are equal when they are the same value; an array or an object is
  equal only to itself, and the two sides never share one.
\<close>

definition strict_eq :: "jsval \<Rightarrow> jsval \<Rightarrow> bool" where
  "strict_eq x y =
     (case (x, y) of
        (None, None) \<Rightarrow> True
      | (Some a, Some b) \<Rightarrow> primitive a \<and> a = b
      | _ \<Rightarrow> False)"

definition truthy :: "json \<Rightarrow> bool" where
  "truthy v =
     (case v of JNull \<Rightarrow> False | JBool b \<Rightarrow> b | JNum n \<Rightarrow> n \<noteq> 0 | JStr s \<Rightarrow> s \<noteq> []
              | _ \<Rightarrow> True)"

fun is_substring :: "string \<Rightarrow> string \<Rightarrow> bool" where
  "is_substring p [] = (p = [])"
| "is_substring p (c # cs) = (take (length p) (c # cs) = p \<or> is_substring p cs)"

subsection \<open>Property access\<close>

definition indexed :: "json list \<Rightarrow> (string \<times> json) list" where
  "indexed xs = zip (map digits [0..<length xs]) xs"

text \<open>Own enumerable properties of a value, as the object spread \<open>{...v}\<close> copies them.\<close>

definition spread :: "json \<Rightarrow> (string \<times> json) list" where
  "spread v =
     (case v of
        JObj kvs \<Rightarrow> kvs
      | JArr xs \<Rightarrow> indexed xs
      | JStr s \<Rightarrow> indexed (map (\<lambda>c. JStr [c]) s)
      | _ \<Rightarrow> [])"

text \<open>\<open>v[k]\<close> for a string key (the methods inherited from the prototypes are functions,
  not JSON values, and are left out).\<close>

definition property :: "json \<Rightarrow> string \<Rightarrow> jsval" where
  "property v k =
     (case v of
        JObj kvs \<Rightarrow> map_of kvs k
      | JArr xs \<Rightarrow> if k = ''length'' then Some (JNum (int (length xs))) else map_of (indexed xs) k
      | JStr s \<Rightarrow> if k = ''length'' then Some (JNum (int (length s))) else map_of (spread v) k
      | _ \<Rightarrow> None)"

fun split_on :: "char \<Rightarrow> string \<Rightarrow> string list" where
  "split_on c [] = [[]]"
| "split_on c (x # xs) =
     (if x = c then [] # split_on c xs
      else (case split_on c xs of [] \<Rightarrow> [[x]] | y # ys \<Rightarrow> (x # y) # ys))"

fun baseGet :: "jsval \<Rightarrow> string list \<Rightarrow> jsval" where
  "baseGet obj [] = obj"
| "baseGet None (k # ks) = None"
| "baseGet (Some JNull) (k # ks) = None"
| "baseGet (Some v) (k # ks) = baseGet (property v k) ks"

text \<open>
  Modelled from the spec: lodash's \<open>get\<close>, imported by the store and not part of the
  repository. It resolves the value at a dot-delimited path; an absent path yields
  \<open>undefined\<close>. A key that is itself a property of the object, or that has no dot, is
  read directly; the bracket syntax of paths is not modelled.
\<close>

definition get :: "json \<Rightarrow> string \<Rightarrow> jsval" where
  "get object path =
     (if object = JNull then None
      else if CHR ''.'' \<notin> set path \<or> property object path \<noteq> None then property object path
      else baseGet (Some object) (split_on CHR ''.'' path))"

section \<open>The filter evaluator\<close>

definition isObject :: "json \<Rightarrow> bool" where
  "isObject v = (case v of JArr xs \<Rightarrow> True | JObj kvs \<Rightarrow> True | _ \<Rightarrow> False)"

definition isArray :: "json \<Rightarrow> bool" where
  "isArray v = (case v of JArr xs \<Rightarrow> True | _ \<Rightarrow> False)"

text \<open>\<open>a.includes(v)\<close>: membership in an array, substring test on a string; any other
  receiver has no such method and the call throws.\<close>

definition js_includes :: "json \<Rightarrow> jsval \<Rightarrow> error + bool" where
  "js_includes a v =
     (case a of
        JArr xs \<Rightarrow> Inr (list_ex (\<lambda>x. strict_eq v (Some x)) xs)
      | JStr s \<Rightarrow> Inr (is_substring (js_string v) s)
      | _ \<Rightarrow> Inl TypeError)"

text \<open>
  The checks of one operator object, in the order of the source. \<open>Inr False\<close> is the
  source's \<open>return false\<close>, \<open>Inr True\<close> is reaching the end of the block.
\<close>

definition in_check :: "json \<Rightarrow> jsval \<Rightarrow> error + bool" where
  "in_check filterValue documentValue =
     (case property filterValue ''$in'' of
        None \<Rightarrow> Inr True
      | Some filterValueArray \<Rightarrow> js_includes filterValueArray documentValue)"

definition nin_check :: "json \<Rightarrow> jsval \<Rightarrow> error + bool" where
  "nin_check filterValue documentValue =
     (case property filterValue ''$nin'' of
        None \<Rightarrow> Inr True
      | Some filterValueArray \<Rightarrow>
          (case js_includes filterValueArray documentValue of
             Inl e \<Rightarrow> Inl e
           | Inr b \<Rightarrow> Inr (\<not> b)))"

definition exists_check :: "json \<Rightarrow> jsval \<Rightarrow> bool" where
  "exists_check filterValue documentValue =
     (case property filterValue ''$exists'' of
        None \<Rightarrow> True
      | Some e \<Rightarrow> \<not> ((truthy e \<and> documentValue = None) \<or> (\<not> truthy e \<and> documentValue \<noteq> None)))"

definition operators_check :: "json \<Rightarrow> jsval \<Rightarrow> error + bool" where
  "operators_check filterValue documentValue =
     (if property filterValue ''$eq'' \<noteq> None \<and> \<not> strict_eq documentValue (property filterValue ''$eq'')
      then Inr False
      else if property filterValue ''$ne'' \<noteq> None \<and> strict_eq documentValue (property filterValue ''$ne'')
      then Inr False
      else if property filterValue ''$gt'' \<noteq> None \<and> js_le documentValue (property filterValue ''$gt'')
      then Inr False
      else if property filterValue ''$gte'' \<noteq> None \<and> js_lt documentValue (property filterValue ''$gte'')
      then Inr False
      else if property filterValue ''$lt'' \<noteq> None \<and> js_ge documentValue (property filterValue ''$lt'')
      then Inr False
      else if property filterValue ''$lte'' \<noteq> None \<and> js_gt documentValue (property filterValue ''$lte'')
      then Inr False
      else (case in_check filterValue documentValue of
              Inl e \<Rightarrow> Inl e
            | Inr False \<Rightarrow> Inr False
            | Inr True \<Rightarrow>
                (case nin_check filterValue documentValue of
                   Inl e \<Rightarrow> Inl e
                 | Inr False \<Rightarrow> Inr False
                 | Inr True \<Rightarrow> Inr (exists_check filterValue documentValue))))"

text \<open>
  \<open>matchesFilter(document, filter)\<close>: the loop over the filter's keys, each with its
  value \<open>filter[key]\<close>. An array is an object for lodash's \<open>isObject\<close>, so the
  \<open>Array.isArray\<close> branch comes second, as in the source.
\<close>

fun matchesFilter :: "json \<Rightarrow> (string \<times> json) list \<Rightarrow> error + bool" where
  "matchesFilter document [] = Inr True"
| "matchesFilter document ((key, filterValue) # rest) =
     (let documentValue = get document key in
      if isObject filterValue then
        (case operators_check filterValue documentValue of
           Inl e \<Rightarrow> Inl e
         | Inr False \<Rightarrow> Inr False
         | Inr True \<Rightarrow> matchesFilter document rest)
      else if isArray filterValue then
        (case js_includes filterValue documentValue of
           Inl e \<Rightarrow> Inl e
         | Inr False \<Rightarrow> Inr False
         | Inr True \<Rightarrow> matchesFilter document rest)
      else if \<not> strict_eq (Some filterValue) documentValue then Inr False
      else matchesFilter document rest)"

section \<open>The collection directory\<close>

text \<open>
  A collection is a directory: its entries in the order \<open>readdir\<close> lists them, each a
  file or a subdirectory. The JSON codec is opaque: the text of a file either parses to a
  JSON value, and is identified with that value, or is rejected by \<open>JSON.parse\<close>.
  \<open>faulty\<close> names the paths on which a write or a removal fails (permissions, a missing
  parent directory, a full disk).
\<close>

datatype content = Valid json | Garbage

datatype entry = File content | Directory

record store =
  files :: "(string \<times> entry) list"
  faulty :: "string list"

definition readdir :: "store \<Rightarrow> string list" where
  "readdir st = map fst (files st)"

definition readFile :: "store \<Rightarrow> string \<Rightarrow> error + content" where
  "readFile st name =
     (case map_of (files st) name of
        None \<Rightarrow> Inl (IOFailure ''ENOENT'')
      | Some Directory \<Rightarrow> Inl (IOFailure ''EISDIR'')
      | Some (File t) \<Rightarrow> Inr t)"

definition JSON_parse :: "content \<Rightarrow> error + json" where
  "JSON_parse t = (case t of Valid v \<Rightarrow> Inr v | Garbage \<Rightarrow> Inl (SyntaxError ''Unexpected token''))"

definition read_json :: "store \<Rightarrow> string \<Rightarrow> error + json" where
  "read_json st name = (case readFile st name of Inl e \<Rightarrow> Inl e | Inr t \<Rightarrow> JSON_parse t)"

definition writeFile :: "store \<Rightarrow> string \<Rightarrow> json \<Rightarrow> error + store" where
  "writeFile st name v =
     (if name \<in> set (faulty st) then Inl (IOFailure ''EACCES'')
      else if map_of (files st) name = Some Directory then Inl (IOFailure ''EISDIR'')
      else Inr (st\<lparr>files := AList.update name (File (Valid v)) (files st)\<rparr>))"

definition unlink :: "store \<Rightarrow> string \<Rightarrow> error + store" where
  "unlink st name =
     (if name \<in> set (faulty st) then Inl (IOFailure ''EACCES'')
      else (case map_of (files st) name of
              None \<Rightarrow> Inl (IOFailure ''ENOENT'')
            | Some Directory \<Rightarrow> Inl (IOFailure ''EPERM'')
            | Some (File t) \<Rightarrow> Inr (st\<lparr>files := AList.delete name (files st)\<rparr>)))"

definition is_DS_Store :: "string \<Rightarrow> bool" where
  "is_DS_Store file = is_substring ''.DS_Store'' file"

text \<open>\<open>{...a, ...b}\<close>: the properties of \<open>b\<close> assigned over those of \<open>a\<close>.\<close>

definition assign :: "(string \<times> json) list \<Rightarrow> (string \<times> json) list \<Rightarrow> (string \<times> json) list" where
  "assign a b = fold (\<lambda>(k, v). AList.update k v) b a"

text \<open>A property set to a value that may be \<open>undefined\<close>: \<open>JSON.stringify\<close> leaves an
  undefined property out, and the model identifies it with an absent one.\<close>

definition set_property :: "string \<Rightarrow> jsval \<Rightarrow> (string \<times> json) list \<Rightarrow> (string \<times> json) list" where
  "set_property k v obj = (case v of None \<Rightarrow> AList.delete k obj | Some x \<Rightarrow> AList.update k x obj)"

section \<open>The document store\<close>

subsection \<open>Queries\<close>

text \<open>
  \<open>findOne(id)\<close>: the body of the \<open>try\<close> block, then the \<open>catch\<close> that logs and returns
  \<open>null\<close>. The result \<open>JNull\<close> is the source's \<open>null\<close>.
\<close>

definition findOne_try :: "store \<Rightarrow> string \<Rightarrow> error + json" where
  "findOne_try st filePath = read_json st filePath"

definition findOne :: "store \<Rightarrow> jsval \<Rightarrow> error + json" where
  "findOne st ident =
     (case ident of
        None \<Rightarrow> Inr JNull
      | Some i \<Rightarrow>
          if \<not> truthy i then Inr JNull
          else (case findOne_try st (to_string i @ ''.json'') of
                  Inl e \<Rightarrow> Inr JNull
                | Inr document \<Rightarrow> Inr document))"

text \<open>The older model of \<open>src/model.ts\<close>: its \<open>findOne\<close> rethrows.\<close>

definition legacy_findOne :: "store \<Rightarrow> string \<Rightarrow> error + json" where
  "legacy_findOne st ident =
     (case read_json st (ident @ ''.json'') of
        Inl e \<Rightarrow> Inl (Error ''Error finding document'' e)
      | Inr document \<Rightarrow> Inr document)"

fun findMany_loop :: "store \<Rightarrow> (string \<times> json) list option \<Rightarrow> string list \<Rightarrow> json list \<Rightarrow> error + json list" where
  "findMany_loop st query [] results = Inr results"
| "findMany_loop st query (file # rest) results =
     (if is_DS_Store file then findMany_loop st query rest results
      else (case read_json st file of
              Inl e \<Rightarrow> Inl e
            | Inr document \<Rightarrow>
                (case query of
                   None \<Rightarrow> findMany_loop st query rest (results @ [document])
                 | Some q \<Rightarrow>
                     (case matchesFilter document q of
                        Inl e \<Rightarrow> Inl e
                      | Inr match \<Rightarrow>
                          if match then findMany_loop st query rest (results @ [document])
                          else findMany_loop st query rest results))))"

definition findMany :: "store \<Rightarrow> (string \<times> json) list option \<Rightarrow> error + json list" where
  "findMany st query =
     (case findMany_loop st query (readdir st) [] of
        Inl e \<Rightarrow> Inl (Error ''Error finding documents'' e)
      | Inr results \<Rightarrow> Inr results)"

subsection \<open>Mutations\<close>

text \<open>
  The identifier generator and the clock are inputs: \<open>fresh\<close> is what \<open>generateId()\<close>
  returns when it is called, \<open>created\<close> and \<open>updated\<close> are the two readings of
  \<open>new Date().toISOString()\<close>. A mutation returns its result and the store it leaves.
\<close>

definition insertOne ::
  "store \<Rightarrow> string \<Rightarrow> string \<Rightarrow> string \<Rightarrow> (string \<times> json) list \<Rightarrow> string option \<Rightarrow> (error + json) \<times> store" where
  "insertOne st fresh created updated document fileName =
     (let ident = (case map_of document ''id'' of
                  None \<Rightarrow> JStr fresh
                | Some i \<Rightarrow> if truthy i then i else JStr fresh);
          finalFileName = (case fileName of
                             None \<Rightarrow> to_string ident
                           | Some f \<Rightarrow> if f \<noteq> [] then f else to_string ident);
          filePath = finalFileName @ ''.json'';
          insertedDocument =
            JObj (AList.update ''updatedAt'' (JStr updated)
                   (AList.update ''createdAt'' (JStr created)
                     (AList.update ''id'' ident document)))
      in case writeFile st filePath insertedDocument of
           Inl e \<Rightarrow> (Inl (Error ''Error inserting document'' e), st)
         | Inr st' \<Rightarrow> (Inr insertedDocument, st'))"

text \<open>\<open>findByIdAndUpdate\<close> has two versions. The first (the class that also has
  \<open>dropCollection\<close>) builds the new document from the update alone and takes the
  identifier from the stored one; the second spreads the stored document first.\<close>

definition findByIdAndUpdate ::
  "store \<Rightarrow> string \<Rightarrow> string \<Rightarrow> (string \<times> json) list \<Rightarrow> (error + json) \<times> store" where
  "findByIdAndUpdate st now ident update =
     (let filePath = ident @ ''.json'' in
      case findOne st (Some (JStr ident)) of
        Inl e \<Rightarrow> (Inl (Error ''Error finding and updating document'' e), st)
      | Inr existingData \<Rightarrow>
          if truthy existingData then
            (let updatedData =
                   JObj (AList.update ''updatedAt'' (JStr now)
                          (set_property ''id'' (property existingData ''id'') update))
             in case writeFile st filePath updatedData of
                  Inl e \<Rightarrow> (Inl (Error ''Error finding and updating document'' e), st)
                | Inr st' \<Rightarrow> (Inr updatedData, st'))
          else (Inr JNull, st))"

definition findByIdAndUpdate_merge ::
  "store \<Rightarrow> string \<Rightarrow> string \<Rightarrow> (string \<times> json) list \<Rightarrow> (error + json) \<times> store" where
  "findByIdAndUpdate_merge st now ident update =
     (let filePath = ident @ ''.json'' in
      case findOne st (Some (JStr ident)) of
        Inl e \<Rightarrow> (Inl (Error ''Error finding and updating document'' e), st)
      | Inr existingData \<Rightarrow>
          if truthy existingData then
            (let updatedData =
                   JObj (AList.update ''updatedAt'' (JStr now)
                          (assign (spread existingData) update))
             in case writeFile st filePath updatedData of
                  Inl e \<Rightarrow> (Inl (Error ''Error finding and updating document'' e), st)
                | Inr st' \<Rightarrow> (Inr updatedData, st'))
          else (Inr JNull, st))"

fun findManyAndUpdate_loop ::
  "(string \<times> json) list \<Rightarrow> (string \<times> json) list \<Rightarrow> string list \<Rightarrow> json list \<Rightarrow> store
     \<Rightarrow> (error + json list) \<times> store" where
  "findManyAndUpdate_loop query update [] updatedDocuments st = (Inr updatedDocuments, st)"
| "findManyAndUpdate_loop query update (file # rest) updatedDocuments st =
     (if is_DS_Store file then findManyAndUpdate_loop query update rest updatedDocuments st
      else (case read_json st file of
              Inl e \<Rightarrow> (Inl e, st)
            | Inr document \<Rightarrow>
                (case matchesFilter document query of
                   Inl e \<Rightarrow> (Inl e, st)
                 | Inr match \<Rightarrow>
                     if match then
                       (case writeFile st file (JObj (assign (spread document) update)) of
                          Inl e \<Rightarrow> (Inl e, st)
                        | Inr st' \<Rightarrow>
                            findManyAndUpdate_loop query update rest (updatedDocuments @ [document]) st')
                     else findManyAndUpdate_loop query update rest (updatedDocuments @ [document]) st)))"

definition findManyAndUpdate ::
  "store \<Rightarrow> (string \<times> json) list \<Rightarrow> (string \<times> json) list \<Rightarrow> (error + json list) \<times> store" where
  "findManyAndUpdate st query update =
     (case findManyAndUpdate_loop query update (readdir st) [] st of
        (Inl e, st') \<Rightarrow> (Inl (Error ''Error finding and updating documents'' e), st')
      | (Inr updatedDocuments, st') \<Rightarrow> (Inr updatedDocuments, st'))"

fun findManyAndDelete_loop :: "(string \<times> json) list \<Rightarrow> string list \<Rightarrow> store \<Rightarrow> (error + bool) \<times> store" where
  "findManyAndDelete_loop query [] st = (Inr True, st)"
| "findManyAndDelete_loop query (file # rest) st =
     (if is_DS_Store file then findManyAndDelete_loop query rest st
      else (case read_json st file of
              Inl e \<Rightarrow> (Inl e, st)
            | Inr document \<Rightarrow>
                (case matchesFilter document query of
                   Inl e \<Rightarrow> (Inl e, st)
                 | Inr match \<Rightarrow>
                     if match then
                       (case unlink st file of
                          Inl e \<Rightarrow> (Inl e, st)
                        | Inr st' \<Rightarrow> findManyAndDelete_loop query rest st')
                     else findManyAndDelete_loop query rest st)))"

definition findManyAndDelete :: "store \<Rightarrow> (string \<times> json) list \<Rightarrow> (error + bool) \<times> store" where
  "findManyAndDelete st query =
     (case findManyAndDelete_loop query (readdir st) st of
        (Inl e, st') \<Rightarrow> (Inl (Error ''Error finding and deleting documents'' e), st')
      | (Inr ok, st') \<Rightarrow> (Inr ok, st'))"

fun dropCollection_loop :: "string list \<Rightarrow> store \<Rightarrow> (error + bool) \<times> store" where
  "dropCollection_loop [] st = (Inr True, st)"
| "dropCollection_loop (file # rest) st =
     (if is_DS_Store file then dropCollection_loop rest st
      else (case unlink st file of
              Inl e \<Rightarrow> (Inl e, st)
            | Inr st' \<Rightarrow> dropCollection_loop rest st'))"

text \<open>\<open>node_env\<close> is the value of \<open>process.env.NODE_ENV\<close>, \<open>None\<close> when it is unset.\<close>

definition dropCollection :: "string option \<Rightarrow> store \<Rightarrow> (error + bool) \<times> store" where
  "dropCollection node_env st =
     (if node_env = Some ''production''
      then (Inl (Policy ''Cannot drop collection in production environment''), st)
      else (case dropCollection_loop (readdir st) st of
              (Inl e, st') \<Rightarrow> (Inl (Error ''Error dropping collection'' e), st')
            | (Inr ok, st') \<Rightarrow> (Inr ok, st')))"

section \<open>The backup manager\<close>






















section \<open>Notions used to state the properties\<close>

text \<open>
  The document a directory entry holds, if it is a file that parses; the entries a scan
  visits (those whose name does not contain \<open>.DS_Store\<close>); the documents of a
  collection, in listing order. A collection is \<open>readable\<close> when every scanned entry
  parses, \<open>writable\<close> when no scanned entry is faulty; a query is \<open>evaluable\<close> on it
  when \<open>matchesFilter\<close> throws on none of its documents.
\<close>

fun parsed :: "entry \<Rightarrow> json option" where
  "parsed (File (Valid d)) = Some d"
| "parsed e = None"

definition scanned :: "store \<Rightarrow> (string \<times> entry) list" where
  "scanned st = filter (\<lambda>(name, e). \<not> is_DS_Store name) (files st)"

definition documents :: "store \<Rightarrow> json list" where
  "documents st = List.map_filter (\<lambda>(name, e). parsed e) (scanned st)"

definition readable :: "store \<Rightarrow> bool" where
  "readable st = list_all (\<lambda>(name, e). parsed e \<noteq> None) (scanned st)"

definition writable :: "store \<Rightarrow> bool" where
  "writable st = list_all (\<lambda>(name, e). name \<notin> set (faulty st)) (scanned st)"

definition evaluable :: "store \<Rightarrow> (string \<times> json) list \<Rightarrow> bool" where
  "evaluable st query = list_all (\<lambda>document. \<not> isl (matchesFilter document query)) (documents st)"

text \<open>What \<open>findManyAndUpdate\<close> is to leave in an entry: the shallow merge of the update
  over the document when the entry is scanned and its document matches, the entry
  itself otherwise.\<close>

definition updated_entry :: "(string \<times> json) list \<Rightarrow> (string \<times> json) list \<Rightarrow> string \<times> entry \<Rightarrow> string \<times> entry" where
  "updated_entry query update p =
     (case p of (name, e) \<Rightarrow>
        (case parsed e of
           None \<Rightarrow> (name, e)
         | Some document \<Rightarrow>
             if \<not> is_DS_Store name \<and> matchesFilter document query = Inr True
             then (name, File (Valid (JObj (assign (spread document) update))))
             else (name, e)))"

definition writable_path :: "store \<Rightarrow> string \<Rightarrow> bool" where
  "writable_path st name = (name \<notin> set (faulty st) \<and> map_of (files st) name \<noteq> Some Directory)"

text \<open>The input document extended with an identifier and the two time stamps; the
  identifier \<open>insertOne\<close> assigns; the file it writes.\<close>

definition stamped :: "json \<Rightarrow> string \<Rightarrow> string \<Rightarrow> (string \<times> json) list \<Rightarrow> json" where
  "stamped ident created updated document =
     JObj (AList.update ''updatedAt'' (JStr updated)
            (AList.update ''createdAt'' (JStr created)
              (AList.update ''id'' ident document)))"

definition assigned_id :: "string \<Rightarrow> (string \<times> json) list \<Rightarrow> json" where
  "assigned_id fresh document =
     (case map_of document ''id'' of
        None \<Rightarrow> JStr fresh
      | Some i \<Rightarrow> if truthy i then i else JStr fresh)"

definition file_name :: "string option \<Rightarrow> json \<Rightarrow> string" where
  "file_name fileName ident =
     (case fileName of None \<Rightarrow> to_string ident | Some f \<Rightarrow> if f \<noteq> [] then f else to_string ident) @ ''.json''"

text \<open>The two documents an update by identifier can build: the stored fields with the
  update over them, and the update with the stored identifier.\<close>

definition merged :: "string \<Rightarrow> (string \<times> json) list \<Rightarrow> (string \<times> json) list \<Rightarrow> (string \<times> json) list" where
  "merged now existing update = AList.update ''updatedAt'' (JStr now) (assign existing update)"

definition replaced :: "string \<Rightarrow> (string \<times> json) list \<Rightarrow> (string \<times> json) list \<Rightarrow> (string \<times> json) list" where
  "replaced now existing update =
     AList.update ''updatedAt'' (JStr now) (set_property ''id'' (map_of existing ''id'') update)"



section \<open>Properties of the filter evaluator\<close>

lemma js_less_undefined_left: "js_less None y = None"
  by (simp add: js_less_def string_primitive_def to_number_def)

lemma js_less_undefined_right: "js_less x None = None"
  by (simp add: js_less_def string_primitive_def to_number_def split: number.splits)

lemma ordering_against_undefined:
  "\<not> js_le None y" "\<not> js_lt None y" "\<not> js_ge None y" "\<not> js_gt None y"
  by (simp_all add: js_le_def js_lt_def js_ge_def js_gt_def
        js_less_undefined_left js_less_undefined_right)

text \<open>
  An operator object that carries ordering operators only never disqualifies a document
  whose value at the path is \<open>undefined\<close>: each guard of the source is the negated
  comparison (\<open>documentValue <= operand\<close> for \<open>$gt\<close>), and that comparison is false too.
\<close>

lemma operators_check_ordering_undefined:
  assumes "property filterValue ''$eq'' = None" "property filterValue ''$ne'' = None"
    and "property filterValue ''$in'' = None" "property filterValue ''$nin'' = None"
    and "property filterValue ''$exists'' = None"
  shows "operators_check filterValue None = Inr True"
  using assms
  by (simp add: operators_check_def ordering_against_undefined in_check_def nin_check_def
        exists_check_def)

text \<open>
  C1. The claim: when the document has no value at the path, an operator object with
  \<open>$gt\<close>, \<open>$gte\<close>, \<open>$lt\<close> or \<open>$lte\<close> makes the filter not match. The code at the
  document \<open>{name: "A"}\<close>, which has no \<open>age\<close>: each of the four filters
  \<open>{age: {$gt: 29}}\<close>, \<open>{age: {$gte: 29}}\<close>, \<open>{age: {$lt: 29}}\<close>, \<open>{age: {$lte: 29}}\<close>
  matches it.
\<close>

theorem matchesFilter_ordering_absent_field:
  "get (JObj [(''name'', JStr ''A'')]) ''age'' = None
   \<and> matchesFilter (JObj [(''name'', JStr ''A'')]) [(''age'', JObj [(''$gt'', JNum 29)])] = Inr True
   \<and> matchesFilter (JObj [(''name'', JStr ''A'')]) [(''age'', JObj [(''$gte'', JNum 29)])] = Inr True
   \<and> matchesFilter (JObj [(''name'', JStr ''A'')]) [(''age'', JObj [(''$lt'', JNum 29)])] = Inr True
   \<and> matchesFilter (JObj [(''name'', JStr ''A'')]) [(''age'', JObj [(''$lte'', JNum 29)])] = Inr True"
  by code_simp

theorem matchesFilter_ordering_absent_field_witness:
  "matchesFilter (JObj [(''name'', JStr ''A'')]) [(''age'', JObj [(''$gt'', JNum 29)])] = Inr True"
  by (rule matchesFilter_ordering_absent_field [THEN conjunct2, THEN conjunct1])

section \<open>Properties of the document store\<close>

subsection \<open>Reading and writing files\<close>

lemma read_json_parsed:
  "map_of (files st) n = Some e \<Longrightarrow> parsed e = Some d \<Longrightarrow> read_json st n = Inr d"
  by (cases e rule: parsed.cases) (simp_all add: read_json_def readFile_def JSON_parse_def)

lemma read_json_unparsed:
  "map_of (files st) n = Some e \<Longrightarrow> parsed e = None \<Longrightarrow> \<exists>err. read_json st n = Inl err"
  by (cases e rule: parsed.cases) (simp_all add: read_json_def readFile_def JSON_parse_def)

lemma read_json_not_directory:
  "read_json st name = Inr v \<Longrightarrow> map_of (files st) name \<noteq> Some Directory"
  by (auto simp: read_json_def readFile_def split: option.splits entry.splits)

lemma unlink_file:
  "map_of (files st) n = Some e \<Longrightarrow> parsed e = Some d \<Longrightarrow> n \<notin> set (faulty st) \<Longrightarrow>
     unlink st n = Inr (st\<lparr>files := AList.delete n (files st)\<rparr>)"
  by (cases e rule: parsed.cases) (simp_all add: unlink_def)

lemma writeFile_file:
  "map_of (files st) n = Some e \<Longrightarrow> parsed e = Some d \<Longrightarrow> n \<notin> set (faulty st) \<Longrightarrow>
     writeFile st n v = Inr (st\<lparr>files := AList.update n (File (Valid v)) (files st)\<rparr>)"
  by (cases e rule: parsed.cases) (simp_all add: writeFile_def)

lemma writeFile_ok:
  "writable_path st name \<Longrightarrow>
     writeFile st name v = Inr (st\<lparr>files := AList.update name (File (Valid v)) (files st)\<rparr>)"
  by (simp add: writeFile_def writable_path_def)

lemma writeFile_Inr:
  "writeFile st name v = Inr st' \<Longrightarrow> st' = st\<lparr>files := AList.update name (File (Valid v)) (files st)\<rparr>"
  by (auto simp: writeFile_def split: if_splits)

lemma read_after_write:
  "read_json (st\<lparr>files := AList.update name (File (Valid v)) (files st)\<rparr>) name = Inr v"
  by (simp add: read_json_def readFile_def JSON_parse_def update_conv')

lemma update_present_map:
  "distinct (map fst fs) \<Longrightarrow> (n, e) \<in> set fs \<Longrightarrow>
     AList.update n v fs = map (\<lambda>p. if fst p = n then (n, v) else p) fs"
proof (induction fs)
  case Nil then show ?case by simp
next
  case (Cons p fs)
  show ?case
  proof (cases "fst p = n")
    case True
    with Cons.prems have "n \<notin> fst ` set fs" by simp
    then have "\<forall>q \<in> set fs. fst q \<noteq> n" by auto
    then have "map (\<lambda>p. if fst p = n then (n, v) else p) fs = fs" by (simp add: map_idI)
    with True show ?thesis by simp
  next
    case False
    with Cons show ?thesis by auto
  qed
qed

lemma map_fst_update_present:
  "(n, e) \<in> set fs \<Longrightarrow> map fst (AList.update n v fs) = map fst fs"
  by (induction fs) auto

lemma documents_parsed:
  "d \<in> set (documents st) \<longleftrightarrow> (\<exists>n e. (n, e) \<in> set (files st) \<and> \<not> is_DS_Store n \<and> parsed e = Some d)"
proof -
  have "set (List.map_filter f xs) = {y. \<exists>x \<in> set xs. f x = Some y}" for f :: "string \<times> entry \<Rightarrow> json option" and xs
    by (induction xs) (auto simp: List.map_filter_simps split: option.splits)
  then show ?thesis by (auto simp: documents_def scanned_def)
qed

subsection \<open>Guarded drop\<close>

text \<open>
  C7. When \<open>NODE_ENV\<close> is \<open>production\<close>, \<open>dropCollection()\<close> raises the policy error and
  the collection it leaves is the one it found: no file is removed, whatever the
  collection holds.
\<close>

theorem dropCollection_production_guard:
  "dropCollection (Some ''production'') st
     = (Inl (Policy ''Cannot drop collection in production environment''), st)"
  by (simp add: dropCollection_def)

text \<open>Under the flag a collection of two documents keeps both.\<close>

theorem dropCollection_production_guard_witness:
  "dropCollection (Some ''production'')
     \<lparr>files = [(''a.json'', File (Valid (JObj [(''id'', JStr ''a'')]))),
               (''b.json'', File (Valid (JObj [(''id'', JStr ''b'')])))], faulty = []\<rparr>
     = (Inl (Policy ''Cannot drop collection in production environment''),
        \<lparr>files = [(''a.json'', File (Valid (JObj [(''id'', JStr ''a'')]))),
                  (''b.json'', File (Valid (JObj [(''id'', JStr ''b'')])))], faulty = []\<rparr>)"
  by (rule dropCollection_production_guard)

subsection \<open>The empty filter\<close>

lemma findMany_loop_empty_filter:
  assumes "\<forall>(n, e) \<in> set es. map_of (files st) n = Some e"
    and "list_all (\<lambda>(n, e). parsed e \<noteq> None) (filter (\<lambda>(n, e). \<not> is_DS_Store n) es)"
  shows "findMany_loop st (Some []) (map fst es) acc
           = Inr (acc @ List.map_filter (\<lambda>(n, e). parsed e) (filter (\<lambda>(n, e). \<not> is_DS_Store n) es))"
  using assms
proof (induction es arbitrary: acc)
  case Nil
  then show ?case by (simp add: List.map_filter_simps)
next
  case (Cons p es)
  obtain n e where p: "p = (n, e)" by (cases p)
  show ?case
  proof (cases "is_DS_Store n")
    case True
    with Cons p show ?thesis by simp
  next
    case False
    with Cons.prems p obtain d where d: "parsed e = Some d" by auto
    from Cons.prems p have "map_of (files st) n = Some e" by simp
    from this d have r: "read_json st n = Inr d" by (rule read_json_parsed)
    from Cons.prems p False have
      "findMany_loop st (Some []) (map fst es) (acc @ [d])
         = Inr ((acc @ [d]) @ List.map_filter (\<lambda>(n, e). parsed e) (filter (\<lambda>(n, e). \<not> is_DS_Store n) es))"
      by (intro Cons.IH) auto
    with p False r d show ?thesis by (simp add: List.map_filter_simps)
  qed
qed

lemma findMany_empty_filter:
  assumes "distinct (readdir st)" "readable st"
  shows "findMany st (Some []) = Inr (documents st)"
proof -
  from assms(1) have "\<forall>(n, e) \<in> set (files st). map_of (files st) n = Some e"
    by (auto simp: readdir_def)
  with assms(2) have "findMany_loop st (Some []) (map fst (files st)) [] = Inr ([] @ documents st)"
    unfolding documents_def scanned_def readable_def by (intro findMany_loop_empty_filter) 
  then show ?thesis by (simp add: findMany_def readdir_def)
qed

lemma findManyAndDelete_loop_empty_filter:
  assumes "distinct (map fst es)"
    and "\<forall>(n, e) \<in> set es. map_of (files st) n = Some e"
    and "\<forall>(n, e) \<in> set es. \<not> is_DS_Store n \<longrightarrow> parsed e \<noteq> None \<and> n \<notin> set (faulty st)"
  shows "findManyAndDelete_loop [] (map fst es) st
           = (Inr True, st\<lparr>files := filter (\<lambda>p. fst p \<notin> {n \<in> fst ` set es. \<not> is_DS_Store n}) (files st)\<rparr>)"
  using assms
proof (induction es arbitrary: st)
  case Nil
  then show ?case by simp
next
  case (Cons p es)
  obtain n e where p: "p = (n, e)" by (cases p)
  show ?case
  proof (cases "is_DS_Store n")
    case True
    from Cons.prems have "findManyAndDelete_loop [] (map fst es) st
           = (Inr True, st\<lparr>files := filter (\<lambda>p. fst p \<notin> {n \<in> fst ` set es. \<not> is_DS_Store n}) (files st)\<rparr>)"
      by (intro Cons.IH) auto
    moreover from True p have "{m \<in> fst ` set (p # es). \<not> is_DS_Store m} = {m \<in> fst ` set es. \<not> is_DS_Store m}"
      by auto
    ultimately show ?thesis using True p by simp
  next
    case False
    with Cons.prems p obtain d where d: "parsed e = Some d" and nf: "n \<notin> set (faulty st)" by auto
    from Cons.prems p have m: "map_of (files st) n = Some e" by simp
    from m d have r: "read_json st n = Inr d" by (rule read_json_parsed)
    let ?st' = "st\<lparr>files := AList.delete n (files st)\<rparr>"
    from m d nf have u: "unlink st n = Inr ?st'" by (rule unlink_file)
    from Cons.prems p have notin: "n \<notin> fst ` set es" by auto
    have "findManyAndDelete_loop [] (map fst es) ?st'
           = (Inr True, ?st'\<lparr>files := filter (\<lambda>p. fst p \<notin> {n \<in> fst ` set es. \<not> is_DS_Store n}) (files ?st')\<rparr>)"
    proof (intro Cons.IH)
      show "distinct (map fst es)" using Cons.prems by simp
      have "map_of (files st) a = Some b" "a \<noteq> n" if "(a, b) \<in> set es" for a b
        using that Cons.prems(2) notin by force+
      then show "\<forall>(n, e)\<in>set es. map_of (files ?st') n = Some e"
        by (auto simp: AList.delete_conv')
      show "\<forall>(n, e)\<in>set es. \<not> is_DS_Store n \<longrightarrow> parsed e \<noteq> None \<and> n \<notin> set (faulty ?st')"
        using Cons.prems by auto
    qed
    moreover have "filter (\<lambda>p. fst p \<notin> {n \<in> fst ` set es. \<not> is_DS_Store n}) (AList.delete n (files st))
        = filter (\<lambda>q. fst q \<notin> {m \<in> fst ` set (p # es). \<not> is_DS_Store m}) (files st)"
      using False p by (auto simp: AList.delete_eq intro!: filter_cong)
    ultimately show ?thesis using False p r u by simp
  qed
qed

lemma findManyAndDelete_empty_filter:
  assumes "distinct (readdir st)" "readable st" "writable st"
  shows "findManyAndDelete st [] = (Inr True, st\<lparr>files := filter (\<lambda>(name, e). is_DS_Store name) (files st)\<rparr>)"
proof -
  have "findManyAndDelete_loop [] (map fst (files st)) st
           = (Inr True, st\<lparr>files := filter (\<lambda>p. fst p \<notin> {n \<in> fst ` set (files st). \<not> is_DS_Store n}) (files st)\<rparr>)"
  proof (intro findManyAndDelete_loop_empty_filter)
    show "distinct (map fst (files st))" using assms(1) by (simp add: readdir_def)
    then show "\<forall>(n, e)\<in>set (files st). map_of (files st) n = Some e" by auto
    show "\<forall>(n, e)\<in>set (files st). \<not> is_DS_Store n \<longrightarrow> parsed e \<noteq> None \<and> n \<notin> set (faulty st)"
      using assms(2,3) by (auto simp: readable_def writable_def scanned_def list_all_iff)
  qed
  moreover have "filter (\<lambda>p. fst p \<notin> {n \<in> fst ` set (files st). \<not> is_DS_Store n}) (files st)
      = filter (\<lambda>(name, e). is_DS_Store name) (files st)"
    by (auto intro!: filter_cong simp: rev_image_eqI)
  ultimately show ?thesis by (simp add: findManyAndDelete_def readdir_def)
qed

text \<open>
  C10. The claim: \<open>findMany({})\<close> returns every document in the collection and
  \<open>findManyAndDelete({})\<close> deletes every one. The scans pass over every file whose name
  contains \<open>.DS_Store\<close>: the document inserted under the identifier \<open>x.DS_Store\<close> is
  stored in \<open>x.DS_Store.json\<close> and found by \<open>findOne\<close>, yet \<open>findMany({})\<close> returns
  the empty list and \<open>findManyAndDelete({})\<close> leaves the file where it is.
\<close>

theorem empty_filter_DS_Store_counterexample:
  "insertOne \<lparr>files = [], faulty = []\<rparr> ''V1StGXR8'' ''T1'' ''T2''
       [(''id'', JStr ''x.DS_Store''), (''name'', JStr ''A'')] None
     = (Inr (JObj [(''id'', JStr ''x.DS_Store''), (''name'', JStr ''A''),
                   (''createdAt'', JStr ''T1''), (''updatedAt'', JStr ''T2'')]),
        \<lparr>files = [(''x.DS_Store.json'',
                    File (Valid (JObj [(''id'', JStr ''x.DS_Store''), (''name'', JStr ''A''),
                                       (''createdAt'', JStr ''T1''), (''updatedAt'', JStr ''T2'')])))],
         faulty = []\<rparr>)
   \<and> findOne
        \<lparr>files = [(''x.DS_Store.json'',
                    File (Valid (JObj [(''id'', JStr ''x.DS_Store''), (''name'', JStr ''A''),
                                       (''createdAt'', JStr ''T1''), (''updatedAt'', JStr ''T2'')])))],
         faulty = []\<rparr> (Some (JStr ''x.DS_Store''))
       = Inr (JObj [(''id'', JStr ''x.DS_Store''), (''name'', JStr ''A''),
                    (''createdAt'', JStr ''T1''), (''updatedAt'', JStr ''T2'')])
   \<and> findMany
        \<lparr>files = [(''x.DS_Store.json'',
                    File (Valid (JObj [(''id'', JStr ''x.DS_Store''), (''name'', JStr ''A''),
                                       (''createdAt'', JStr ''T1''), (''updatedAt'', JStr ''T2'')])))],
         faulty = []\<rparr> (Some [])
       = Inr []
   \<and> findManyAndDelete
        \<lparr>files = [(''x.DS_Store.json'',
                    File (Valid (JObj [(''id'', JStr ''x.DS_Store''), (''name'', JStr ''A''),
                                       (''createdAt'', JStr ''T1''), (''updatedAt'', JStr ''T2'')])))],
         faulty = []\<rparr> []
       = (Inr True,
          \<lparr>files = [(''x.DS_Store.json'',
                      File (Valid (JObj [(''id'', JStr ''x.DS_Store''), (''name'', JStr ''A''),
                                         (''createdAt'', JStr ''T1''), (''updatedAt'', JStr ''T2'')])))],
           faulty = []\<rparr>)"
  by code_simp

text \<open>
  C10, amended. The empty filter matches every document. Hence, on a collection whose
  listing names no file twice and whose scanned files all parse, \<open>findMany({})\<close> returns
  the document of every file whose name does not contain \<open>.DS_Store\<close>, in listing
  order, and of no other file; and when moreover none of these files refuses removal,
  \<open>findManyAndDelete({})\<close> removes every one of them and leaves exactly the files whose
  name contains \<open>.DS_Store\<close>.
\<close>

theorem empty_filter_matches_all:
  "matchesFilter document [] = Inr True
   \<and> (distinct (readdir st) \<and> readable st \<longrightarrow> findMany st (Some []) = Inr (documents st))
   \<and> (distinct (readdir st) \<and> readable st \<and> writable st
        \<longrightarrow> findManyAndDelete st []
              = (Inr True, st\<lparr>files := filter (\<lambda>(name, e). is_DS_Store name) (files st)\<rparr>))"
  by (simp add: findMany_empty_filter findManyAndDelete_empty_filter)

theorem empty_filter_matches_all_witness:
  "matchesFilter (JObj [(''id'', JStr ''a''), (''age'', JNum 30)]) [] = Inr True
   \<and> findMany
        \<lparr>files = [(''a.json'', File (Valid (JObj [(''id'', JStr ''a''), (''age'', JNum 30)]))),
                  (''.DS_Store'', File Garbage),
                  (''b.json'', File (Valid (JObj [(''id'', JStr ''b''), (''age'', JNum 20)])))],
         faulty = []\<rparr> (Some [])
       = Inr [JObj [(''id'', JStr ''a''), (''age'', JNum 30)],
              JObj [(''id'', JStr ''b''), (''age'', JNum 20)]]
   \<and> findManyAndDelete
        \<lparr>files = [(''a.json'', File (Valid (JObj [(''id'', JStr ''a''), (''age'', JNum 30)]))),
                  (''.DS_Store'', File Garbage),
                  (''b.json'', File (Valid (JObj [(''id'', JStr ''b''), (''age'', JNum 20)])))],
         faulty = []\<rparr> []
       = (Inr True, \<lparr>files = [(''.DS_Store'', File Garbage)], faulty = []\<rparr>)"
proof -
  let ?st = "\<lparr>files = [(''a.json'', File (Valid (JObj [(''id'', JStr ''a''), (''age'', JNum 30)]))),
                  (''.DS_Store'', File Garbage),
                  (''b.json'', File (Valid (JObj [(''id'', JStr ''b''), (''age'', JNum 20)])))],
         faulty = []\<rparr>"
  let ?doc = "JObj [(''id'', JStr ''a''), (''age'', JNum 30)]"
  note T = empty_filter_matches_all [of ?doc ?st]
  have h1: "distinct (readdir ?st) \<and> readable ?st" by code_simp
  have h2: "distinct (readdir ?st) \<and> readable ?st \<and> writable ?st" by code_simp
  have d: "documents ?st = [JObj [(''id'', JStr ''a''), (''age'', JNum 30)],
              JObj [(''id'', JStr ''b''), (''age'', JNum 20)]]" by code_simp
  have f: "?st\<lparr>files := filter (\<lambda>(name, e). is_DS_Store name) (files ?st)\<rparr>
             = \<lparr>files = [(''.DS_Store'', File Garbage)], faulty = []\<rparr>" by code_simp
  have a: "matchesFilter ?doc [] = Inr True" by (rule T [THEN conjunct1])
  have b: "findMany ?st (Some []) = Inr (documents ?st)"
    by (rule T [THEN conjunct2, THEN conjunct1, THEN mp, OF h1])
  have c: "findManyAndDelete ?st []
             = (Inr True, ?st\<lparr>files := filter (\<lambda>(name, e). is_DS_Store name) (files ?st)\<rparr>)"
    by (rule T [THEN conjunct2, THEN conjunct2, THEN mp, OF h2])
  show ?thesis
    using a b c unfolding d f by (intro conjI)
qed

subsection \<open>Bulk update\<close>

lemma findManyAndUpdate_loop_result:
  assumes "distinct (map fst (files st))" "distinct (map fst es)"
    and "\<forall>(n, e) \<in> set es. map_of (files st) n = Some e"
    and "\<forall>(n, e) \<in> set es. \<not> is_DS_Store n \<longrightarrow>
           (\<exists>d b. parsed e = Some d \<and> matchesFilter d q = Inr b) \<and> n \<notin> set (faulty st)"
  shows "findManyAndUpdate_loop q u (map fst es) acc st
           = (Inr (acc @ List.map_filter (\<lambda>(n, e). parsed e) (filter (\<lambda>(n, e). \<not> is_DS_Store n) es)),
              st\<lparr>files := map (\<lambda>p. if fst p \<in> fst ` set es then updated_entry q u p else p) (files st)\<rparr>)"
  using assms
proof (induction es arbitrary: acc st)
  case Nil
  then show ?case by (simp add: List.map_filter_simps)
next
  case (Cons p es)
  obtain n e where p: "p = (n, e)" by (cases p)
  from Cons.prems(2) p have notin: "n \<notin> fst ` set es" by auto
  from Cons.prems(3) p have m: "map_of (files st) n = Some e" by simp
  then have mem: "(n, e) \<in> set (files st)" by (rule map_of_SomeD)
  have key_n: "q' = (n, e)" if "q' \<in> set (files st)" "fst q' = n" for q'
    using that mem Cons.prems(1) by (metis eq_key_imp_eq_value prod.collapse)
  have rest: "map_of (files st) a = Some b" "a \<noteq> n" if "(a, b) \<in> set es" for a b
    using that Cons.prems(3) notin by force+
  show ?case
  proof (cases "is_DS_Store n")
    case True
    have "findManyAndUpdate_loop q u (map fst es) acc st
           = (Inr (acc @ List.map_filter (\<lambda>(n, e). parsed e) (filter (\<lambda>(n, e). \<not> is_DS_Store n) es)),
              st\<lparr>files := map (\<lambda>p. if fst p \<in> fst ` set es then updated_entry q u p else p) (files st)\<rparr>)"
      using Cons.prems by (intro Cons.IH) auto
    moreover have "map (\<lambda>p. if fst p \<in> fst ` set es then updated_entry q u p else p) (files st)
        = map (\<lambda>r. if fst r \<in> fst ` set (p # es) then updated_entry q u r else r) (files st)"
    proof (rule map_cong[OF refl])
      fix r assume "r \<in> set (files st)"
      show "(if fst r \<in> fst ` set es then updated_entry q u r else r)
          = (if fst r \<in> fst ` set (p # es) then updated_entry q u r else r)"
      proof (cases "fst r = n")
        case True
        with \<open>is_DS_Store n\<close> have "updated_entry q u r = r"
          by (cases r) (simp add: updated_entry_def split: option.splits)
        then show ?thesis using p by simp
      next
        case False
        then show ?thesis using p by simp
      qed
    qed
    ultimately show ?thesis using True p by simp
  next
    case False
    with Cons.prems(4) p obtain d b where d: "parsed e = Some d" and b: "matchesFilter d q = Inr b"
      and nf: "n \<notin> set (faulty st)" by auto
    from m d have r: "read_json st n = Inr d" by (rule read_json_parsed)
    show ?thesis
    proof (cases b)
      case True
      let ?new = "File (Valid (JObj (assign (spread d) u)))"
      let ?st' = "st\<lparr>files := AList.update n ?new (files st)\<rparr>"
      from m d nf have w: "writeFile st n (JObj (assign (spread d) u)) = Inr ?st'"
        by (rule writeFile_file)
      have upd: "AList.update n ?new (files st) = map (\<lambda>p. if fst p = n then (n, ?new) else p) (files st)"
        using Cons.prems(1) mem by (rule update_present_map)
      have "findManyAndUpdate_loop q u (map fst es) (acc @ [d]) ?st'
           = (Inr ((acc @ [d]) @ List.map_filter (\<lambda>(n, e). parsed e) (filter (\<lambda>(n, e). \<not> is_DS_Store n) es)),
              ?st'\<lparr>files := map (\<lambda>p. if fst p \<in> fst ` set es then updated_entry q u p else p) (files ?st')\<rparr>)"
      proof (intro Cons.IH)
        show "distinct (map fst (files ?st'))"
          using Cons.prems(1) mem by (simp add: map_fst_update_present)
        show "distinct (map fst es)" using Cons.prems(2) by simp
        show "\<forall>(n, e)\<in>set es. map_of (files ?st') n = Some e"
          using rest by (auto simp: update_conv')
        show "\<forall>(n, e)\<in>set es. \<not> is_DS_Store n \<longrightarrow>
           (\<exists>d b. parsed e = Some d \<and> matchesFilter d q = Inr b) \<and> n \<notin> set (faulty ?st')"
          using Cons.prems(4) by auto
      qed
      moreover have "map (\<lambda>p. if fst p \<in> fst ` set es then updated_entry q u p else p) (AList.update n ?new (files st))
          = map (\<lambda>r. if fst r \<in> fst ` set (p # es) then updated_entry q u r else r) (files st)"
        unfolding upd map_map
      proof (rule map_cong[OF refl])
        fix r assume rin: "r \<in> set (files st)"
        show "((\<lambda>p. if fst p \<in> fst ` set es then updated_entry q u p else p) \<circ> (\<lambda>p. if fst p = n then (n, ?new) else p)) r
            = (if fst r \<in> fst ` set (p # es) then updated_entry q u r else r)"
        proof (cases "fst r = n")
          case True
          with rin have "r = (n, e)" by (intro key_n)
          with d b \<open>b\<close> False have "updated_entry q u r = (n, ?new)"
            by (simp add: updated_entry_def)
          with True notin p show ?thesis by simp
        next
          case False
          then show ?thesis using p by simp
        qed
      qed
      ultimately show ?thesis using False p r b True w d by (simp add: List.map_filter_simps)
    next
      case nomatch: False
      have "findManyAndUpdate_loop q u (map fst es) (acc @ [d]) st
           = (Inr ((acc @ [d]) @ List.map_filter (\<lambda>(n, e). parsed e) (filter (\<lambda>(n, e). \<not> is_DS_Store n) es)),
              st\<lparr>files := map (\<lambda>p. if fst p \<in> fst ` set es then updated_entry q u p else p) (files st)\<rparr>)"
        using Cons.prems by (intro Cons.IH) auto
      moreover have "map (\<lambda>p. if fst p \<in> fst ` set es then updated_entry q u p else p) (files st)
          = map (\<lambda>r. if fst r \<in> fst ` set (p # es) then updated_entry q u r else r) (files st)"
      proof (rule map_cong[OF refl])
        fix r assume rin: "r \<in> set (files st)"
        show "(if fst r \<in> fst ` set es then updated_entry q u r else r)
            = (if fst r \<in> fst ` set (p # es) then updated_entry q u r else r)"
        proof (cases "fst r = n")
          case True
          with rin have "r = (n, e)" by (intro key_n)
          with d b nomatch have "updated_entry q u r = r"
            by (simp add: updated_entry_def)
          then show ?thesis using p by simp
        next
          case False
          then show ?thesis using p by simp
        qed
      qed
      ultimately show ?thesis using False p r b nomatch d by (simp add: List.map_filter_simps)
    qed
  qed
qed

text \<open>
  C2. On a collection whose listing names no file twice, whose scanned files all parse
  and accept a write, and on whose documents the filter can be evaluated,
  \<open>findManyAndUpdate(filter, update)\<close> writes the shallow merge of the update over each
  matching document and leaves every other entry as it was; the list it returns is the
  documents of the collection it started from, matching or not, in listing order: the
  documents as they were read, before any write.
\<close>

theorem findManyAndUpdate_returns_old_documents:
  assumes "distinct (readdir st)" "readable st" "writable st" "evaluable st query"
  shows "findManyAndUpdate st query update
           = (Inr (documents st), st\<lparr>files := map (updated_entry query update) (files st)\<rparr>)"
proof -
  have "findManyAndUpdate_loop query update (map fst (files st)) [] st
           = (Inr ([] @ List.map_filter (\<lambda>(n, e). parsed e) (filter (\<lambda>(n, e). \<not> is_DS_Store n) (files st))),
              st\<lparr>files := map (\<lambda>p. if fst p \<in> fst ` set (files st) then updated_entry query update p else p) (files st)\<rparr>)"
  proof (intro findManyAndUpdate_loop_result)
    show dist: "distinct (map fst (files st))" using assms(1) by (simp add: readdir_def)
    then show "distinct (map fst (files st))" .
    from dist show "\<forall>(n, e)\<in>set (files st). map_of (files st) n = Some e" by auto
    show "\<forall>(n, e)\<in>set (files st). \<not> is_DS_Store n \<longrightarrow>
       (\<exists>d b. parsed e = Some d \<and> matchesFilter d query = Inr b) \<and> n \<notin> set (faulty st)"
    proof (clarify, intro conjI)
      fix n e assume ne: "(n, e) \<in> set (files st)" "\<not> is_DS_Store n"
      then obtain d where d: "parsed e = Some d"
        using assms(2) by (auto simp: readable_def scanned_def list_all_iff)
      with ne have "d \<in> set (documents st)" by (auto simp: documents_parsed)
      with assms(4) have "\<not> isl (matchesFilter d query)"
        by (auto simp: evaluable_def list_all_iff)
      then obtain b where "matchesFilter d query = Inr b"
        by (cases "matchesFilter d query") auto
      with d show "\<exists>d b. parsed e = Some d \<and> matchesFilter d query = Inr b" by blast
      from ne assms(3) show "n \<notin> set (faulty st)"
        by (auto simp: writable_def scanned_def list_all_iff)
    qed
  qed
  moreover have "map (\<lambda>p. if fst p \<in> fst ` set (files st) then updated_entry query update p else p) (files st)
      = map (updated_entry query update) (files st)"
    by (rule map_cong[OF refl]) simp
  ultimately show ?thesis
    by (simp add: findManyAndUpdate_def readdir_def documents_def scanned_def)
qed

text \<open>The filter \<open>{age: {$gt: 25}}\<close> with the update \<open>{age: 31}\<close>: the file of \<open>a\<close> is
  rewritten with age 31, and the returned list still shows age 30.\<close>

theorem findManyAndUpdate_returns_old_documents_witness:
  "findManyAndUpdate
     \<lparr>files = [(''a.json'', File (Valid (JObj [(''id'', JStr ''a''), (''age'', JNum 30)]))),
               (''.DS_Store'', File Garbage),
               (''b.json'', File (Valid (JObj [(''id'', JStr ''b''), (''age'', JNum 20)])))],
      faulty = []\<rparr>
     [(''age'', JObj [(''$gt'', JNum 25)])] [(''age'', JNum 31)]
   = (Inr [JObj [(''id'', JStr ''a''), (''age'', JNum 30)],
           JObj [(''id'', JStr ''b''), (''age'', JNum 20)]],
      \<lparr>files = [(''a.json'', File (Valid (JObj [(''id'', JStr ''a''), (''age'', JNum 31)]))),
                (''.DS_Store'', File Garbage),
                (''b.json'', File (Valid (JObj [(''id'', JStr ''b''), (''age'', JNum 20)])))],
       faulty = []\<rparr>)"
proof -
  let ?st = "\<lparr>files = [(''a.json'', File (Valid (JObj [(''id'', JStr ''a''), (''age'', JNum 30)]))),
               (''.DS_Store'', File Garbage),
               (''b.json'', File (Valid (JObj [(''id'', JStr ''b''), (''age'', JNum 20)])))],
      faulty = []\<rparr>"
  let ?q = "[(''age'', JObj [(''$gt'', JNum 25)])]"
  let ?u = "[(''age'', JNum 31)]"
  have h: "distinct (readdir ?st)" "readable ?st" "writable ?st" "evaluable ?st ?q"
    by code_simp+
  have r: "(Inr (documents ?st) :: error + json list, ?st\<lparr>files := map (updated_entry ?q ?u) (files ?st)\<rparr>)
      = (Inr [JObj [(''id'', JStr ''a''), (''age'', JNum 30)],
           JObj [(''id'', JStr ''b''), (''age'', JNum 20)]],
      \<lparr>files = [(''a.json'', File (Valid (JObj [(''id'', JStr ''a''), (''age'', JNum 31)]))),
                (''.DS_Store'', File Garbage),
                (''b.json'', File (Valid (JObj [(''id'', JStr ''b''), (''age'', JNum 20)])))],
       faulty = []\<rparr>)"
    by code_simp
  show ?thesis
    by (rule trans [OF findManyAndUpdate_returns_old_documents [OF h, of ?u] r])
qed

subsection \<open>Insertion\<close>

lemma insertOne_Inr:
  assumes "insertOne st fresh created updated document None = (Inr d, st')"
  shows "d = stamped (assigned_id fresh document) created updated document"
    and "st' = st\<lparr>files := AList.update (to_string (assigned_id fresh document) @ ''.json'')
                    (File (Valid d)) (files st)\<rparr>"
  using assms
  by (auto simp: insertOne_def Let_def stamped_def assigned_id_def
        split: sum.splits option.splits if_splits dest!: writeFile_Inr)

lemma map_of_stamped_id:
  "property (stamped ident created updated document) ''id'' = Some ident"
  by (simp add: stamped_def property_def update_conv')

lemma truthy_assigned_id: "fresh \<noteq> [] \<Longrightarrow> truthy (assigned_id fresh document)"
  by (auto simp: assigned_id_def truthy_def split: option.splits)

lemma insertOne_result:
  "writable_path st (file_name fileName (assigned_id fresh document)) \<Longrightarrow>
     insertOne st fresh created updated document fileName
       = (Inr (stamped (assigned_id fresh document) created updated document),
          st\<lparr>files := AList.update (file_name fileName (assigned_id fresh document))
                    (File (Valid (stamped (assigned_id fresh document) created updated document))) (files st)\<rparr>)"
  by (auto simp: insertOne_def Let_def stamped_def assigned_id_def writeFile_ok file_name_def
        split: option.splits)

text \<open>
  C8. Round trip: when \<open>insertOne(document)\<close>, called with no file name, returns a
  document, \<open>findOne\<close> with the \<open>id\<close> of that document finds exactly the document
  returned, which is the input extended with the identifier and the two time stamps
  (the generator returns a non-empty string).
\<close>

theorem insertOne_findOne_round_trip:
  assumes "insertOne st fresh created updated document None = (Inr d, st')" and "fresh \<noteq> []"
  shows "findOne st' (property d ''id'') = Inr d
         \<and> d = stamped (assigned_id fresh document) created updated document"
proof -
  note r = insertOne_Inr[OF assms(1)]
  have "property d ''id'' = Some (assigned_id fresh document)"
    unfolding r(1) by (rule map_of_stamped_id)
  moreover have "truthy (assigned_id fresh document)"
    using assms(2) by (rule truthy_assigned_id)
  moreover have "read_json st' (to_string (assigned_id fresh document) @ ''.json'') = Inr d"
    unfolding r(2) by (rule read_after_write)
  ultimately have "findOne st' (property d ''id'') = Inr d"
    by (simp add: findOne_def findOne_try_def)
  with r(1) show ?thesis by simp
qed

theorem insertOne_findOne_round_trip_witness:
  "insertOne \<lparr>files = [], faulty = []\<rparr> ''V1StGXR8'' ''T1'' ''T2'' [(''name'', JStr ''A'')] None
     = (Inr (JObj [(''name'', JStr ''A''), (''id'', JStr ''V1StGXR8''),
                   (''createdAt'', JStr ''T1''), (''updatedAt'', JStr ''T2'')]),
        \<lparr>files = [(''V1StGXR8.json'',
                    File (Valid (JObj [(''name'', JStr ''A''), (''id'', JStr ''V1StGXR8''),
                                       (''createdAt'', JStr ''T1''), (''updatedAt'', JStr ''T2'')])))],
         faulty = []\<rparr>)
   \<and> ''V1StGXR8'' \<noteq> []
   \<and> findOne
        \<lparr>files = [(''V1StGXR8.json'',
                    File (Valid (JObj [(''name'', JStr ''A''), (''id'', JStr ''V1StGXR8''),
                                       (''createdAt'', JStr ''T1''), (''updatedAt'', JStr ''T2'')])))],
         faulty = []\<rparr>
        (Some (JStr ''V1StGXR8''))
       = Inr (JObj [(''name'', JStr ''A''), (''id'', JStr ''V1StGXR8''),
                    (''createdAt'', JStr ''T1''), (''updatedAt'', JStr ''T2'')])"
proof -
  let ?d = "JObj [(''name'', JStr ''A''), (''id'', JStr ''V1StGXR8''),
                   (''createdAt'', JStr ''T1''), (''updatedAt'', JStr ''T2'')]"
  let ?st' = "\<lparr>files = [(''V1StGXR8.json'', File (Valid ?d))], faulty = []\<rparr>"
  have i: "insertOne \<lparr>files = [], faulty = []\<rparr> ''V1StGXR8'' ''T1'' ''T2'' [(''name'', JStr ''A'')] None
             = (Inr ?d, ?st')" by code_simp
  have n: "''V1StGXR8'' \<noteq> []" by simp
  have p: "property ?d ''id'' = Some (JStr ''V1StGXR8'')" by code_simp
  have "findOne ?st' (property ?d ''id'') = Inr ?d"
    by (rule insertOne_findOne_round_trip [OF i n, THEN conjunct1])
  then have "findOne ?st' (Some (JStr ''V1StGXR8'')) = Inr ?d" by (simp only: p)
  with i n show ?thesis by (intro conjI)
qed

text \<open>
  C9. The claim: a document that carries an \<open>id\<close> field keeps that \<open>id\<close>, and one
  is generated only when the document has none. The code tests the field with \<open>||\<close>:
  the document \<open>{id: "", name: "B"}\<close> carries an \<open>id\<close>, and \<open>insertOne\<close> stores and returns
  it under the generated identifier.
\<close>

theorem insertOne_falsy_id_counterexample:
  "map_of [(''id'', JStr ''''), (''name'', JStr ''B'')] ''id'' = Some (JStr '''')
   \<and> fst (insertOne \<lparr>files = [], faulty = []\<rparr> ''V1StGXR8'' ''T1'' ''T2''
             [(''id'', JStr ''''), (''name'', JStr ''B'')] None)
       = Inr (JObj [(''id'', JStr ''V1StGXR8''), (''name'', JStr ''B''),
                    (''createdAt'', JStr ''T1''), (''updatedAt'', JStr ''T2'')])"
  by code_simp

text \<open>
  C9, amended. A document whose \<open>id\<close> is truthy (not the empty string, 0, \<open>null\<close> or
  \<open>false\<close>) keeps it: when the file can be written, \<open>insertOne\<close> stores and returns the
  document with that \<open>id\<close>, and the result does not depend on what the generator would
  return. A document with no \<open>id\<close>, or with a falsy one, gets the generated identifier.
\<close>

theorem insertOne_keeps_truthy_id:
  "(map_of document ''id'' = Some i \<and> truthy i \<and> writable_path st (file_name fileName i)
      \<longrightarrow> insertOne st fresh created updated document fileName
            = (Inr (stamped i created updated document),
               st\<lparr>files := AList.update (file_name fileName i)
                     (File (Valid (stamped i created updated document))) (files st)\<rparr>)
          \<and> property (stamped i created updated document) ''id'' = Some i
          \<and> insertOne st other created updated document fileName
              = insertOne st fresh created updated document fileName)
   \<and> ((map_of document ''id'' = None \<or> (\<exists>j. map_of document ''id'' = Some j \<and> \<not> truthy j))
        \<and> writable_path st (file_name fileName (JStr fresh))
      \<longrightarrow> insertOne st fresh created updated document fileName
            = (Inr (stamped (JStr fresh) created updated document),
               st\<lparr>files := AList.update (file_name fileName (JStr fresh))
                     (File (Valid (stamped (JStr fresh) created updated document))) (files st)\<rparr>)
          \<and> property (stamped (JStr fresh) created updated document) ''id'' = Some (JStr fresh))"
proof (intro conjI impI)
  assume a: "map_of document ''id'' = Some i \<and> truthy i \<and> writable_path st (file_name fileName i)"
  then have id: "assigned_id f document = i" for f by (simp add: assigned_id_def)
  from a show "insertOne st fresh created updated document fileName
            = (Inr (stamped i created updated document),
               st\<lparr>files := AList.update (file_name fileName i)
                     (File (Valid (stamped i created updated document))) (files st)\<rparr>)"
    using insertOne_result[of st fileName fresh document created updated] by (simp add: id)
  show "property (stamped i created updated document) ''id'' = Some i" by (rule map_of_stamped_id)
  from a show "insertOne st other created updated document fileName
              = insertOne st fresh created updated document fileName"
    using insertOne_result[of st fileName fresh document created updated]
      insertOne_result[of st fileName other document created updated] by (simp add: id)
next
  assume a: "(map_of document ''id'' = None \<or> (\<exists>j. map_of document ''id'' = Some j \<and> \<not> truthy j))
        \<and> writable_path st (file_name fileName (JStr fresh))"
  then have id: "assigned_id fresh document = JStr fresh" by (auto simp: assigned_id_def)
  from a show "insertOne st fresh created updated document fileName
            = (Inr (stamped (JStr fresh) created updated document),
               st\<lparr>files := AList.update (file_name fileName (JStr fresh))
                     (File (Valid (stamped (JStr fresh) created updated document))) (files st)\<rparr>)"
    using insertOne_result[of st fileName fresh document created updated] by (simp add: id)
  show "property (stamped (JStr fresh) created updated document) ''id'' = Some (JStr fresh)"
    by (rule map_of_stamped_id)
qed

theorem insertOne_keeps_truthy_id_witness:
  "insertOne \<lparr>files = [], faulty = []\<rparr> ''V1StGXR8'' ''T1'' ''T2''
       [(''id'', JStr ''u1''), (''name'', JStr ''A'')] None
     = (Inr (JObj [(''id'', JStr ''u1''), (''name'', JStr ''A''),
                   (''createdAt'', JStr ''T1''), (''updatedAt'', JStr ''T2'')]),
        \<lparr>files = [(''u1.json'',
                    File (Valid (JObj [(''id'', JStr ''u1''), (''name'', JStr ''A''),
                                       (''createdAt'', JStr ''T1''), (''updatedAt'', JStr ''T2'')])))],
         faulty = []\<rparr>)
   \<and> insertOne \<lparr>files = [], faulty = []\<rparr> ''V1StGXR8'' ''T1'' ''T2'' [(''name'', JStr ''A'')] None
     = (Inr (JObj [(''name'', JStr ''A''), (''id'', JStr ''V1StGXR8''),
                   (''createdAt'', JStr ''T1''), (''updatedAt'', JStr ''T2'')]),
        \<lparr>files = [(''V1StGXR8.json'',
                    File (Valid (JObj [(''name'', JStr ''A''), (''id'', JStr ''V1StGXR8''),
                                       (''createdAt'', JStr ''T1''), (''updatedAt'', JStr ''T2'')])))],
         faulty = []\<rparr>)"
proof -
  let ?st = "\<lparr>files = [], faulty = []\<rparr>"
  let ?doc1 = "[(''id'', JStr ''u1''), (''name'', JStr ''A'')]"
  let ?doc2 = "[(''name'', JStr ''A'')]"
  have h1: "map_of ?doc1 ''id'' = Some (JStr ''u1'') \<and> truthy (JStr ''u1'')
              \<and> writable_path ?st (file_name None (JStr ''u1''))" by code_simp
  have h2: "(map_of ?doc2 ''id'' = None \<or> (\<exists>j. map_of ?doc2 ''id'' = Some j \<and> \<not> truthy j))
              \<and> writable_path ?st (file_name None (JStr ''V1StGXR8''))"
  proof (intro conjI disjI1)
    show "map_of ?doc2 ''id'' = None" by code_simp
    show "writable_path ?st (file_name None (JStr ''V1StGXR8''))" by code_simp
  qed
  have r1: "(Inr (stamped (JStr ''u1'') ''T1'' ''T2'' ?doc1) :: error + json,
               ?st\<lparr>files := AList.update (file_name None (JStr ''u1''))
                     (File (Valid (stamped (JStr ''u1'') ''T1'' ''T2'' ?doc1))) (files ?st)\<rparr>)
      = (Inr (JObj [(''id'', JStr ''u1''), (''name'', JStr ''A''),
                   (''createdAt'', JStr ''T1''), (''updatedAt'', JStr ''T2'')]),
        \<lparr>files = [(''u1.json'',
                    File (Valid (JObj [(''id'', JStr ''u1''), (''name'', JStr ''A''),
                                       (''createdAt'', JStr ''T1''), (''updatedAt'', JStr ''T2'')])))],
         faulty = []\<rparr>)" by code_simp
  have r2: "(Inr (stamped (JStr ''V1StGXR8'') ''T1'' ''T2'' ?doc2) :: error + json,
               ?st\<lparr>files := AList.update (file_name None (JStr ''V1StGXR8''))
                     (File (Valid (stamped (JStr ''V1StGXR8'') ''T1'' ''T2'' ?doc2))) (files ?st)\<rparr>)
      = (Inr (JObj [(''name'', JStr ''A''), (''id'', JStr ''V1StGXR8''),
                   (''createdAt'', JStr ''T1''), (''updatedAt'', JStr ''T2'')]),
        \<lparr>files = [(''V1StGXR8.json'',
                    File (Valid (JObj [(''name'', JStr ''A''), (''id'', JStr ''V1StGXR8''),
                                       (''createdAt'', JStr ''T1''), (''updatedAt'', JStr ''T2'')])))],
         faulty = []\<rparr>)" by code_simp
  note T1 = insertOne_keeps_truthy_id [where document = ?doc1 and i = "JStr ''u1''" and st = ?st
              and fileName = None and fresh = "''V1StGXR8''" and created = "''T1''"
              and updated = "''T2''",
              THEN conjunct1, THEN mp, OF h1, THEN conjunct1]
  note T2 = insertOne_keeps_truthy_id [where document = ?doc2 and st = ?st
              and fileName = None and fresh = "''V1StGXR8''" and created = "''T1''"
              and updated = "''T2''",
              THEN conjunct2, THEN mp, OF h2, THEN conjunct1]
  show ?thesis
    by (intro conjI) (rule trans [OF T1 r1], rule trans [OF T2 r2])
qed

subsection \<open>Update by identifier\<close>

lemma map_of_assign:
  "distinct (map fst b) \<Longrightarrow>
     map_of (assign a b) k = (case map_of b k of None \<Rightarrow> map_of a k | Some v \<Rightarrow> Some v)"
proof (induction b arbitrary: a)
  case Nil
  then show ?case by (simp add: assign_def)
next
  case (Cons p b)
  obtain k' v' where p: "p = (k', v')" by (cases p)
  from Cons.prems p have nk: "map_of b k' = None"
    by (simp add: map_of_eq_None_iff)
  have "assign a (p # b) = assign (AList.update k' v' a) b"
    by (simp add: assign_def p)
  moreover from Cons.prems have
    "map_of (assign (AList.update k' v' a) b) k
       = (case map_of b k of None \<Rightarrow> map_of (AList.update k' v' a) k | Some v \<Rightarrow> Some v)"
    by (intro Cons.IH) simp
  ultimately show ?case using p nk by (auto simp: update_conv' split: option.splits)
qed

lemma map_of_merged:
  "distinct (map fst update) \<Longrightarrow>
     map_of (merged now existing update) k
       = (if k = ''updatedAt'' then Some (JStr now)
          else (case map_of update k of None \<Rightarrow> map_of existing k | Some v \<Rightarrow> Some v))"
  by (simp add: merged_def update_conv' map_of_assign)

lemma map_of_set_property:
  "map_of (set_property k v obj) k' = (if k' = k then v else map_of obj k')"
  by (cases v) (simp_all add: set_property_def update_conv' delete_conv')

lemma map_of_replaced:
  "map_of (replaced now existing update) k
     = (if k = ''updatedAt'' then Some (JStr now)
        else if k = ''id'' then map_of existing ''id''
        else map_of update k)"
  by (simp add: replaced_def update_conv' map_of_set_property)

lemma findOne_found:
  "ident \<noteq> [] \<Longrightarrow> read_json st (ident @ ''.json'') = Inr v \<Longrightarrow> findOne st (Some (JStr ident)) = Inr v"
  by (simp add: findOne_def findOne_try_def truthy_def)

lemma findOne_missing:
  "read_json st (ident @ ''.json'') = Inl e \<Longrightarrow> findOne st (Some (JStr ident)) = Inr JNull"
  by (simp add: findOne_def findOne_try_def truthy_def)

text \<open>
  C3. The claim: \<open>findByIdAndUpdate\<close> merges the update over the stored fields, keeps
  every stored field the update does not name, and keeps the stored \<open>id\<close> even when
  the update carries one. On the stored document \<open>{id: "u1", age: 30, name: "A"}\<close>:
  the first version, given \<open>{age: 31}\<close>, writes and returns a document without
  \<open>name\<close>; the second version, given \<open>{id: "u2"}\<close>, writes and returns the document
  under the identifier \<open>u2\<close>.
\<close>

theorem findByIdAndUpdate_counterexample:
  "fst (findByIdAndUpdate
          \<lparr>files = [(''u1.json'', File (Valid (JObj [(''id'', JStr ''u1''), (''age'', JNum 30),
                                                    (''name'', JStr ''A'')])))], faulty = []\<rparr>
          ''T'' ''u1'' [(''age'', JNum 31)])
     = Inr (JObj [(''age'', JNum 31), (''id'', JStr ''u1''), (''updatedAt'', JStr ''T'')])
   \<and> fst (findByIdAndUpdate_merge
          \<lparr>files = [(''u1.json'', File (Valid (JObj [(''id'', JStr ''u1''), (''age'', JNum 30),
                                                    (''name'', JStr ''A'')])))], faulty = []\<rparr>
          ''T'' ''u1'' [(''id'', JStr ''u2'')])
     = Inr (JObj [(''id'', JStr ''u2''), (''age'', JNum 30), (''name'', JStr ''A''),
                  (''updatedAt'', JStr ''T'')])"
  by code_simp

text \<open>
  C3, amended. When no file of that identifier can be read, both versions of
  \<open>findByIdAndUpdate\<close> return \<open>null\<close> and leave the collection as it is. When the file
  holds an object and can be written, both write the document they return, with
  \<open>updatedAt\<close> refreshed. The version that spreads the stored document returns the
  shallow merge: each field is the update's where the update names it and the stored one
  otherwise, so the stored \<open>id\<close> stays whenever the update carries none. The version
  that builds the document from the update returns it with the stored \<open>id\<close>, whatever
  \<open>id\<close> the update carries. (The update is an object: its keys are distinct.)
\<close>

theorem findByIdAndUpdate_behaviour:
  "(read_json st (ident @ ''.json'') = Inl e
      \<longrightarrow> findByIdAndUpdate st now ident update = (Inr JNull, st)
          \<and> findByIdAndUpdate_merge st now ident update = (Inr JNull, st))
   \<and> (read_json st (ident @ ''.json'') = Inr (JObj existing) \<and> ident \<noteq> []
        \<and> ident @ ''.json'' \<notin> set (faulty st) \<and> distinct (map fst update)
      \<longrightarrow> findByIdAndUpdate_merge st now ident update
            = (Inr (JObj (merged now existing update)),
               st\<lparr>files := AList.update (ident @ ''.json'')
                     (File (Valid (JObj (merged now existing update)))) (files st)\<rparr>)
          \<and> (\<forall>k. map_of (merged now existing update) k
                = (if k = ''updatedAt'' then Some (JStr now)
                   else (case map_of update k of None \<Rightarrow> map_of existing k | Some v \<Rightarrow> Some v)))
          \<and> (map_of update ''id'' = None
                \<longrightarrow> map_of (merged now existing update) ''id'' = map_of existing ''id'')
          \<and> findByIdAndUpdate st now ident update
            = (Inr (JObj (replaced now existing update)),
               st\<lparr>files := AList.update (ident @ ''.json'')
                     (File (Valid (JObj (replaced now existing update)))) (files st)\<rparr>)
          \<and> map_of (replaced now existing update) ''id'' = map_of existing ''id''
          \<and> map_of (replaced now existing update) ''updatedAt'' = Some (JStr now))"
proof (intro conjI impI allI)
  assume "read_json st (ident @ ''.json'') = Inl e"
  then have f: "findOne st (Some (JStr ident)) = Inr JNull" by (rule findOne_missing)
  show "findByIdAndUpdate st now ident update = (Inr JNull, st)"
    by (simp add: findByIdAndUpdate_def f truthy_def)
  show "findByIdAndUpdate_merge st now ident update = (Inr JNull, st)"
    by (simp add: findByIdAndUpdate_merge_def f truthy_def)
next
  assume a: "read_json st (ident @ ''.json'') = Inr (JObj existing) \<and> ident \<noteq> []
        \<and> ident @ ''.json'' \<notin> set (faulty st) \<and> distinct (map fst update)"
  then have f: "findOne st (Some (JStr ident)) = Inr (JObj existing)" by (simp add: findOne_found)
  from a have w: "writable_path st (ident @ ''.json'')"
    by (auto simp: writable_path_def dest: read_json_not_directory)
  show "findByIdAndUpdate_merge st now ident update
            = (Inr (JObj (merged now existing update)),
               st\<lparr>files := AList.update (ident @ ''.json'')
                     (File (Valid (JObj (merged now existing update)))) (files st)\<rparr>)"
    by (simp add: findByIdAndUpdate_merge_def f truthy_def merged_def spread_def writeFile_ok[OF w] Let_def)
  show "findByIdAndUpdate st now ident update
            = (Inr (JObj (replaced now existing update)),
               st\<lparr>files := AList.update (ident @ ''.json'')
                     (File (Valid (JObj (replaced now existing update)))) (files st)\<rparr>)"
    by (simp add: findByIdAndUpdate_def f truthy_def replaced_def property_def writeFile_ok[OF w] Let_def)
  show "map_of (merged now existing update) k
                = (if k = ''updatedAt'' then Some (JStr now)
                   else (case map_of update k of None \<Rightarrow> map_of existing k | Some v \<Rightarrow> Some v))" for k
    using a by (simp add: map_of_merged)
  show "map_of (merged now existing update) ''id'' = map_of existing ''id''" if "map_of update ''id'' = None"
    using a that by (simp add: map_of_merged)
  show "map_of (replaced now existing update) ''id'' = map_of existing ''id''"
    by (simp add: map_of_replaced)
  show "map_of (replaced now existing update) ''updatedAt'' = Some (JStr now)"
    by (simp add: map_of_replaced)
qed

theorem findByIdAndUpdate_behaviour_witness:
  "findByIdAndUpdate_merge
     \<lparr>files = [(''u1.json'', File (Valid (JObj [(''id'', JStr ''u1''), (''age'', JNum 30),
                                               (''name'', JStr ''A'')])))], faulty = []\<rparr>
     ''T'' ''u1'' [(''age'', JNum 31)]
     = (Inr (JObj [(''id'', JStr ''u1''), (''age'', JNum 31), (''name'', JStr ''A''),
                   (''updatedAt'', JStr ''T'')]),
        \<lparr>files = [(''u1.json'', File (Valid (JObj [(''id'', JStr ''u1''), (''age'', JNum 31),
                                                  (''name'', JStr ''A''), (''updatedAt'', JStr ''T'')])))],
         faulty = []\<rparr>)
   \<and> findByIdAndUpdate
     \<lparr>files = [(''u1.json'', File (Valid (JObj [(''id'', JStr ''u1''), (''age'', JNum 30),
                                               (''name'', JStr ''A'')])))], faulty = []\<rparr>
     ''T'' ''zz'' [(''age'', JNum 31)]
     = (Inr JNull,
        \<lparr>files = [(''u1.json'', File (Valid (JObj [(''id'', JStr ''u1''), (''age'', JNum 30),
                                                  (''name'', JStr ''A'')])))], faulty = []\<rparr>)"
proof -
  let ?ex = "[(''id'', JStr ''u1''), (''age'', JNum 30), (''name'', JStr ''A'')]"
  let ?st = "\<lparr>files = [(''u1.json'', File (Valid (JObj ?ex)))], faulty = []\<rparr>"
  let ?u = "[(''age'', JNum 31)]"
  have h1: "read_json ?st (''zz'' @ ''.json'') = Inl (IOFailure ''ENOENT'')" by code_simp
  have h2: "read_json ?st (''u1'' @ ''.json'') = Inr (JObj ?ex) \<and> ''u1'' \<noteq> []
              \<and> ''u1'' @ ''.json'' \<notin> set (faulty ?st) \<and> distinct (map fst ?u)" by code_simp
  have r: "(Inr (JObj (merged ''T'' ?ex ?u)) :: error + json,
               ?st\<lparr>files := AList.update (''u1'' @ ''.json'')
                     (File (Valid (JObj (merged ''T'' ?ex ?u)))) (files ?st)\<rparr>)
      = (Inr (JObj [(''id'', JStr ''u1''), (''age'', JNum 31), (''name'', JStr ''A''),
                   (''updatedAt'', JStr ''T'')]),
        \<lparr>files = [(''u1.json'', File (Valid (JObj [(''id'', JStr ''u1''), (''age'', JNum 31),
                                                  (''name'', JStr ''A''), (''updatedAt'', JStr ''T'')])))],
         faulty = []\<rparr>)" by code_simp
  note T1 = findByIdAndUpdate_behaviour [where st = ?st and ident = "''u1''" and now = "''T''"
              and update = ?u and existing = ?ex,
              THEN conjunct2, THEN mp, OF h2, THEN conjunct1]
  note T2 = findByIdAndUpdate_behaviour [where st = ?st and ident = "''zz''"
              and e = "IOFailure ''ENOENT''" and now = "''T''" and update = ?u,
              THEN conjunct1, THEN mp, OF h1, THEN conjunct1]
  show ?thesis
    by (intro conjI) (rule trans [OF T1 r], rule T2)
qed

subsection \<open>Swallowed and propagated failures\<close>

lemma findMany_loop_bad_file:
  assumes "(n, e) \<in> set es" "\<not> is_DS_Store n" "parsed e = None"
    and "\<forall>(n, e) \<in> set es. map_of (files st) n = Some e"
  shows "\<exists>err. findMany_loop st query (map fst es) acc = Inl err"
  using assms
proof (induction es arbitrary: acc)
  case Nil
  then show ?case by simp
next
  case (Cons p es)
  obtain m f where p: "p = (m, f)" by (cases p)
  from Cons.prems(4) p have look: "map_of (files st) m = Some f" by simp
  show ?case
  proof (cases "p = (n, e)")
    case True
    with p look Cons.prems(3) obtain err where "read_json st n = Inl err"
      using read_json_unparsed by blast
    with True Cons.prems(2) show ?thesis by simp
  next
    case False
    with Cons.prems have IH: "\<exists>err. findMany_loop st query (map fst es) acc' = Inl err" for acc'
      by (intro Cons.IH) auto
    show ?thesis
      using p IH
      by (auto split: sum.splits option.splits)
  qed
qed

text \<open>
  C4. The claim: \<open>findOne\<close> never raises. The \<open>findOne\<close> of the older model in
  \<open>src/model.ts\<close> rethrows: on a collection without the file it raises.
\<close>

theorem legacy_findOne_raises:
  "legacy_findOne \<lparr>files = [], faulty = []\<rparr> ''missing''
     = Inl (Error ''Error finding document'' (IOFailure ''ENOENT''))"
  by code_simp

text \<open>
  C4, amended. The \<open>findOne\<close> of the store that also has \<open>findMany\<close> returns a value
  for every collection and every identifier, and that value is \<open>null\<close> when the file
  cannot be read or parsed; \<open>findMany\<close>, on a collection that lists a scanned entry
  which cannot be read or parsed, raises and returns no list. The \<open>findOne\<close> of the
  older model propagates the failure as an error.
\<close>

theorem findOne_swallows_findMany_raises:
  "(\<exists>v. findOne st ident = Inr v)
   \<and> (read_json st (to_string i @ ''.json'') = Inl e \<longrightarrow> findOne st (Some i) = Inr JNull)
   \<and> (distinct (readdir st) \<and> (n, f) \<in> set (files st) \<and> \<not> is_DS_Store n \<and> parsed f = None
        \<longrightarrow> (\<exists>err. findMany st query = Inl (Error ''Error finding documents'' err)))
   \<and> (read_json st (s @ ''.json'') = Inl e \<longrightarrow>
        legacy_findOne st s = Inl (Error ''Error finding document'' e))"
proof (intro conjI impI)
  show "\<exists>v. findOne st ident = Inr v"
    by (auto simp: findOne_def findOne_try_def split: option.splits sum.splits)
  show "findOne st (Some i) = Inr JNull" if "read_json st (to_string i @ ''.json'') = Inl e"
    using that by (simp add: findOne_def findOne_try_def)
  show "legacy_findOne st s = Inl (Error ''Error finding document'' e)"
    if "read_json st (s @ ''.json'') = Inl e"
    using that by (simp add: legacy_findOne_def)
  assume a: "distinct (readdir st) \<and> (n, f) \<in> set (files st) \<and> \<not> is_DS_Store n \<and> parsed f = None"
  then have "\<forall>(n, e) \<in> set (files st). map_of (files st) n = Some e"
    by (auto simp: readdir_def)
  with a obtain err where "findMany_loop st query (map fst (files st)) [] = Inl err"
    using findMany_loop_bad_file[of n f "files st" st query "[]"] by blast
  then show "\<exists>err. findMany st query = Inl (Error ''Error finding documents'' err)"
    by (simp add: findMany_def readdir_def)
qed

theorem findOne_swallows_findMany_raises_witness:
  "findOne \<lparr>files = [(''a.json'', File (Valid (JObj [(''id'', JStr ''a'')]))),
                     (''b.json'', File Garbage)], faulty = []\<rparr> (Some (JStr ''b'')) = Inr JNull
   \<and> findOne \<lparr>files = [(''a.json'', File (Valid (JObj [(''id'', JStr ''a'')]))),
                     (''b.json'', File Garbage)], faulty = []\<rparr> (Some (JStr ''zz'')) = Inr JNull
   \<and> (\<exists>err. findMany \<lparr>files = [(''a.json'', File (Valid (JObj [(''id'', JStr ''a'')]))),
                     (''b.json'', File Garbage)], faulty = []\<rparr> None
              = Inl (Error ''Error finding documents'' err))"
proof -
  let ?st = "\<lparr>files = [(''a.json'', File (Valid (JObj [(''id'', JStr ''a'')]))),
                     (''b.json'', File Garbage)], faulty = []\<rparr>"
  have h1: "read_json ?st (to_string (JStr ''b'') @ ''.json'') = Inl (SyntaxError ''Unexpected token'')"
    by code_simp
  have h2: "read_json ?st (to_string (JStr ''zz'') @ ''.json'') = Inl (IOFailure ''ENOENT'')"
    by code_simp
  have h3: "distinct (readdir ?st) \<and> (''b.json'', File Garbage) \<in> set (files ?st)
              \<and> \<not> is_DS_Store ''b.json'' \<and> parsed (File Garbage) = None"
    by code_simp
  note T1 = findOne_swallows_findMany_raises [where st = ?st and i = "JStr ''b''"
              and e = "SyntaxError ''Unexpected token''",
              THEN conjunct2, THEN conjunct1, THEN mp, OF h1]
  note T2 = findOne_swallows_findMany_raises [where st = ?st and i = "JStr ''zz''"
              and e = "IOFailure ''ENOENT''",
              THEN conjunct2, THEN conjunct1, THEN mp, OF h2]
  note T3 = findOne_swallows_findMany_raises [where st = ?st and n = "''b.json''"
              and f = "File Garbage" and query = None,
              THEN conjunct2, THEN conjunct2, THEN conjunct1, THEN mp, OF h3]
  show ?thesis
    by (intro conjI) (rule T1, rule T2, rule T3)
qed

section \<open>Properties of the backup manager\<close>

subsection \<open>Printing and reading numbers\<close>














subsection \<open>Retention\<close>







subsection \<open>Sequence numbers\<close>













end
